theory Spec2Isabelle
  imports Complex_Main
begin

section \<open>Data model\<close>

text \<open>
  A pandas DataFrame as the three modules use it: an ordered list of named columns, each
  a list of cells, with the default row index \<open>0, 1, ..., n - 1\<close> that the readers
  produce. Column names are kept in a list because cleaning can make two names equal.
  A cell is null (NaN), a boolean, an integer, a finite floating-point number (modelled
  by its rational value), an infinite one (\<open>CInf True\<close> is \<open>inf\<close>, \<open>CInf False\<close> is
  \<open>-inf\<close>) or a string over the characters with a code below 256.

  The dtype of a column is not stored; where the code depends on it, it is the dtype
  that the readers infer from the cells: boolean for booleans only, int64 for 64-bit
  integers only, float64 for numbers with a null or a float among them (an integer
  cell of such a column stands for the float of that value), object otherwise.
\<close>

datatype cell = CNull | CBool bool | CInt int | CNum rat | CInf bool | CStr string

type_synonym column = "string \<times> cell list"
type_synonym dataset = "column list"

datatype error = ValueError | TypeError | AttributeError | KeyError

text \<open>
  Three functions of the pandas and Python libraries are not part of the repository and
  are taken as parameters: the parser behind \<open>pd.to_numeric\<close> on a non-empty string
  (\<open>None\<close> when the string does not denote a number; an integer numeral is read as an
  integer, any other numeral as a float, which can be NaN or infinite), Python's \<open>str\<close>
  on a finite float, and \<open>Series.median\<close> on a numeric column (the median of its numbers
  in float64 arithmetic, NaN when it holds none).
\<close>

datatype parsed = PNaN | PInt int | PFloat rat | PInf bool

record lib =
  parse_float :: "string \<Rightarrow> parsed option"
  float_str :: "rat \<Rightarrow> string"
  series_median :: "cell list \<Rightarrow> cell"

definition nl :: char where
  "nl = CHR 0x0A"

definition columns :: "dataset \<Rightarrow> string list" where
  "columns df = map fst df"

text \<open>\<open>len(df)\<close>: the number of rows.\<close>

definition len_df :: "dataset \<Rightarrow> nat" where
  "len_df df = (case df of [] \<Rightarrow> 0 | c # _ \<Rightarrow> length (snd c))"

text \<open>\<open>df.empty\<close>: some axis has length zero.\<close>

definition df_empty :: "dataset \<Rightarrow> bool" where
  "df_empty df = (df = [] \<or> len_df df = 0)"

text \<open>The columns carrying a given name; \<open>df[name]\<close> is a Series only when there is one.\<close>

definition get_columns :: "dataset \<Rightarrow> string \<Rightarrow> cell list list" where
  "get_columns df name = map snd (filter (\<lambda>c. fst c = name) df)"

text \<open>
  \<open>df[name]\<close> used as a Series. With a duplicated name pandas returns a DataFrame and
  every use of it in the three modules raises; \<open>e\<close> is the exception of that use.
\<close>

definition series :: "error \<Rightarrow> dataset \<Rightarrow> string \<Rightarrow> error + cell list" where
  "series e df name = (case get_columns df name of [v] \<Rightarrow> Inr v | _ \<Rightarrow> Inl e)"

text \<open>\<open>df[name] = f(df[name])\<close> for the columns called \<open>name\<close>.\<close>

definition update_column :: "string \<Rightarrow> (cell list \<Rightarrow> cell list) \<Rightarrow> dataset \<Rightarrow> dataset" where
  "update_column name f df = map (\<lambda>c. if fst c = name then (fst c, f (snd c)) else c) df"

text \<open>\<open>df[mask].index.tolist()\<close>: the row indices at which the mask holds.\<close>

definition rows_where :: "('a \<Rightarrow> bool) \<Rightarrow> 'a list \<Rightarrow> nat list" where
  "rows_where P xs = filter (\<lambda>i. P (xs ! i)) [0..<length xs]"

text \<open>The shape of a frame: the column names with the lengths of the columns.\<close>

definition shape :: "dataset \<Rightarrow> (string \<times> nat) list" where
  "shape df = map (\<lambda>c. (fst c, length (snd c))) df"

definition isnull :: "cell \<Rightarrow> bool" where
  "isnull c = (c = CNull)"

definition is_bool :: "cell \<Rightarrow> bool" where
  "is_bool c = (case c of CBool _ \<Rightarrow> True | _ \<Rightarrow> False)"

section \<open>DataValidator\<close>

text \<open>The configuration set in \<open>__init__\<close>; the dictionary is kept in its insertion order.\<close>

definition required_fields :: "string list" where
  "required_fields = [''Year'', ''Stock #'', ''VIN'', ''Make'', ''Model'', ''Price'', ''Unit Cost'']"

definition expected_types :: "(string \<times> string) list" where
  "expected_types =
     [(''Year'', ''int''), (''Odometer'', ''int''), (''Price'', ''numeric''),
      (''Unit Cost'', ''numeric''),
      (''J.D. Power'' @ [nl] @ ''Trade In'', ''numeric''),
      (''J.D. Power'' @ [nl] @ ''Retail Clean'', ''numeric'')]"

record missing_issue =
  m_field :: string
  m_count :: nat
  m_rows :: "nat list"

record type_issue =
  t_field :: string
  t_expected_type :: string
  t_rows :: "nat list"

record special_issue =
  s_field :: string
  s_rows :: "nat list"

record issues =
  missing_values :: "missing_issue list"
  data_type_issues :: "type_issue list"
  price_below_cost :: "nat list"
  column_name_issues :: "string list"
  special_character_issues :: "special_issue list"

subsection \<open>Strings and patterns\<close>

text \<open>
  Python's \<open>str\<close> of an integer: decimal digits, with a minus sign when negative;
  \<open>str_nat\<close> gives the digits of an integer that is not negative.
\<close>

function str_nat :: "int \<Rightarrow> string" where
  "str_nat n =
     (if n < 10 then [char_of (48 + n)]
      else str_nat (n div 10) @ [char_of (48 + n mod 10)])"
  by pat_completeness auto

termination
  by (relation "measure nat") auto

declare str_nat.simps [simp del]

definition str_int :: "int \<Rightarrow> string" where
  "str_int i = (if i < 0 then CHR ''-'' # str_nat (- i) else str_nat i)"

text \<open>\<open>astype(str)\<close> on one cell.\<close>

fun py_str :: "lib \<Rightarrow> cell \<Rightarrow> string" where
  "py_str L CNull = ''nan''"
| "py_str L (CBool b) = (if b then ''True'' else ''False'')"
| "py_str L (CInt i) = str_int i"
| "py_str L (CNum r) = float_str L r"
| "py_str L (CInf b) = (if b then ''inf'' else ''-inf'')"
| "py_str L (CStr s) = s"

definition is_digit :: "char \<Rightarrow> bool" where
  "is_digit c = (48 \<le> (of_char c :: nat) \<and> (of_char c :: nat) \<le> 57)"

definition is_letter :: "char \<Rightarrow> bool" where
  "is_letter c =
     ((65 \<le> (of_char c :: nat) \<and> (of_char c :: nat) \<le> 90)
      \<or> (97 \<le> (of_char c :: nat) \<and> (of_char c :: nat) \<le> 122))"

text \<open>
  The class \<open>\s\<close> of Python's \<open>re\<close> on the characters below 256: the ASCII whitespace,
  the separators 28 to 31, the next-line character 0x85 and the no-break space 0xA0.
\<close>

definition is_space :: "char \<Rightarrow> bool" where
  "is_space c =
     ((9 \<le> (of_char c :: nat) \<and> (of_char c :: nat) \<le> 13)
      \<or> (28 \<le> (of_char c :: nat) \<and> (of_char c :: nat) \<le> 32)
      \<or> (of_char c :: nat) = 133 \<or> (of_char c :: nat) = 160)"

text \<open>
  \<open>str.match(r'^-?\d+$')\<close>: an optional minus sign, one or more digits, then the end of
  the string or a single final newline (which \<open>$\<close> accepts).
\<close>

definition digits_to_end :: "string \<Rightarrow> bool" where
  "digits_to_end s =
     (let ds = takeWhile is_digit s; r = dropWhile is_digit s
      in ds \<noteq> [] \<and> (r = [] \<or> r = [nl]))"

definition matches_int :: "string \<Rightarrow> bool" where
  "matches_int s = (case s of
       [] \<Rightarrow> False
     | c # cs \<Rightarrow> if c = CHR ''-'' then digits_to_end cs else digits_to_end s)"

text \<open>\<open>str.contains(r'[^a-zA-Z0-9\s,]')\<close> on one string.\<close>

definition special_char :: "char \<Rightarrow> bool" where
  "special_char c = (\<not> (is_letter c \<or> is_digit c \<or> is_space c \<or> c = CHR '',''))"

definition contains_special :: "string \<Rightarrow> bool" where
  "contains_special s = list_ex special_char s"

subsection \<open>Numeric coercion\<close>

text \<open>
  \<open>pd.to_numeric(..., errors='coerce')\<close> on one cell, before the column gets its common
  type: a boolean counts as 0 or 1, the empty string and a string that does not parse
  become NaN, a number stays what it is.
\<close>

fun to_numeric :: "lib \<Rightarrow> cell \<Rightarrow> cell" where
  "to_numeric L (CBool b) = CInt (if b then 1 else 0)"
| "to_numeric L (CStr s) =
     (if s = [] then CNull
      else (case parse_float L s of
              None \<Rightarrow> CNull
            | Some PNaN \<Rightarrow> CNull
            | Some (PInt i) \<Rightarrow> CInt i
            | Some (PFloat r) \<Rightarrow> CNum r
            | Some (PInf b) \<Rightarrow> CInf b))"
| "to_numeric L c = c"

text \<open>
  The conversion of an integer to float64: exact up to \<open>2 ^ 53\<close> in magnitude, and
  beyond that rounded to 53 significant bits, a tie going to the even neighbour. Integers
  beyond the range of float64 are outside the model.
\<close>

function bitlen :: "int \<Rightarrow> nat" where
  "bitlen n = (if n \<le> 0 then 0 else Suc (bitlen (n div 2)))"
  by pat_completeness auto

termination
  by (relation "measure nat") auto

declare bitlen.simps [simp del]

definition to_float64 :: "int \<Rightarrow> rat" where
  "to_float64 i =
     (if \<bar>i\<bar> \<le> 2 ^ 53 then of_int i
      else (let n = \<bar>i\<bar>; e = bitlen n - 53;
                q = n div 2 ^ e; r = n mod 2 ^ e;
                q' = (if 2 * r > 2 ^ e \<or> (2 * r = 2 ^ e \<and> odd q) then q + 1 else q)
            in of_int (sgn i * (q' * 2 ^ e))))"

definition as_float64 :: "cell \<Rightarrow> cell" where
  "as_float64 c = (case c of
       CBool b \<Rightarrow> CNum (if b then 1 else 0)
     | CInt i \<Rightarrow> CNum (to_float64 i)
     | _ \<Rightarrow> c)"

definition int64_cell :: "cell \<Rightarrow> bool" where
  "int64_cell c = (case c of CInt i \<Rightarrow> - (2 ^ 63) \<le> i \<and> i < 2 ^ 63 | _ \<Rightarrow> False)"

text \<open>
  \<open>pd.to_numeric(..., errors='coerce')\<close> on a column. A boolean column is returned as it
  is. The result is an int64 column when every cell coerces to a 64-bit integer, and a
  float64 column otherwise, in which the integers are converted to floats. Columns of
  unsigned 64-bit integers (a value from \<open>2 ^ 63\<close> on, none negative) are not modelled
  apart: they are taken as float64 columns.
\<close>

definition coerce_numeric :: "lib \<Rightarrow> cell list \<Rightarrow> cell list" where
  "coerce_numeric L v =
     (if list_all is_bool v then v
      else (let w = map (to_numeric L) v in
            if list_all int64_cell w then w else map as_float64 w))"

text \<open>
  \<open>pd.to_numeric(..., errors='raise')\<close> raises ValueError on a non-empty string that does
  not parse, or that denotes an integer outside the signed and the unsigned 64-bit range;
  the empty string is read as NaN.
\<close>

definition raises_on :: "lib \<Rightarrow> cell \<Rightarrow> bool" where
  "raises_on L c = (case c of
       CStr s \<Rightarrow>
         s \<noteq> [] \<and> (case parse_float L s of
                      None \<Rightarrow> True
                    | Some (PInt i) \<Rightarrow> i < - (2 ^ 63) \<or> 2 ^ 64 \<le> i
                    | Some _ \<Rightarrow> False)
     | _ \<Rightarrow> False)"

definition to_numeric_raises :: "lib \<Rightarrow> cell list \<Rightarrow> bool" where
  "to_numeric_raises L v = list_ex (raises_on L) v"

text \<open>The mask \<open>~df[col].isnull() & pd.to_numeric(df[col], errors='coerce').isnull()\<close>.\<close>

definition unparsable :: "lib \<Rightarrow> cell \<Rightarrow> bool" where
  "unparsable L c = (\<not> isnull c \<and> isnull (to_numeric L c))"

subsection \<open>validate\_data\<close>

text \<open>Lines 59-68: missing values in the required fields that are present.\<close>

fun check_missing :: "dataset \<Rightarrow> string list \<Rightarrow> missing_issue list \<Rightarrow> error + missing_issue list" where
  "check_missing df [] acc = Inr acc"
| "check_missing df (f # fs) acc =
     (if f \<in> set (columns df) then
        (case series ValueError df f of
           Inl e \<Rightarrow> Inl e
         | Inr v \<Rightarrow>
             (let missing_count = length (filter isnull v) in
              if missing_count > 0
              then check_missing df fs
                     (acc @ [\<lparr>m_field = f, m_count = missing_count, m_rows = rows_where isnull v\<rparr>])
              else check_missing df fs acc))
      else check_missing df fs acc)"

text \<open>Lines 70-92: one entry per typed column that has a failing value.\<close>

definition non_int :: "lib \<Rightarrow> cell \<Rightarrow> bool" where
  "non_int L c = (\<not> isnull c \<and> \<not> matches_int (py_str L c))"

fun check_types :: "lib \<Rightarrow> dataset \<Rightarrow> (string \<times> string) list \<Rightarrow> type_issue list \<Rightarrow> error + type_issue list" where
  "check_types L df [] acc = Inr acc"
| "check_types L df ((col, expected_type) # rest) acc =
     (if col \<in> set (columns df) then
        (if expected_type = ''int'' then
           (case series AttributeError df col of
              Inl e \<Rightarrow> Inl e
            | Inr v \<Rightarrow>
                if list_ex (non_int L) v
                then check_types L df rest
                       (acc @ [\<lparr>t_field = col, t_expected_type = expected_type,
                                t_rows = rows_where (non_int L) v\<rparr>])
                else check_types L df rest acc)
         else if expected_type = ''numeric'' then
           (case series TypeError df col of
              Inl e \<Rightarrow> Inl e
            | Inr v \<Rightarrow>
                if to_numeric_raises L v
                then check_types L df rest
                       (acc @ [\<lparr>t_field = col, t_expected_type = expected_type,
                                t_rows = rows_where (unparsable L) v\<rparr>])
                else check_types L df rest acc)
         else check_types L df rest acc)
      else check_types L df rest acc)"

text \<open>
  The order of the numbers: \<open>-inf\<close>, then the finite numbers by their value, then \<open>inf\<close>;
  a boolean counts as 0 or 1. \<open>num_key\<close> is the rank and the finite value of a number,
  and \<open>None\<close> for a cell that is no number. A comparison with NaN is false.
\<close>

definition num_key :: "cell \<Rightarrow> (int \<times> rat) option" where
  "num_key c = (case c of
       CBool b \<Rightarrow> Some (0, if b then 1 else 0)
     | CInt i \<Rightarrow> Some (0, of_int i)
     | CNum r \<Rightarrow> Some (0, r)
     | CInf b \<Rightarrow> Some (if b then 1 else - 1, 0)
     | _ \<Rightarrow> None)"

definition num_less :: "cell \<Rightarrow> cell \<Rightarrow> bool" where
  "num_less a b = (case (num_key a, num_key b) of
       (Some (ra, x), Some (rb, y)) \<Rightarrow> ra < rb \<or> (ra = rb \<and> x < y)
     | _ \<Rightarrow> False)"

text \<open>
  \<open>price < cost\<close> on two coerced columns. Two columns of integers (or booleans) are
  compared exactly; otherwise both are compared as float64 columns, the integers of an
  integer column being converted to floats.
\<close>

definition int_typed :: "cell list \<Rightarrow> bool" where
  "int_typed v = list_all (\<lambda>c. is_bool c \<or> int64_cell c) v"

definition lt_series :: "cell list \<Rightarrow> cell list \<Rightarrow> bool list" where
  "lt_series p c =
     (if int_typed p \<and> int_typed c then map (\<lambda>(x, y). num_less x y) (zip p c)
      else map (\<lambda>(x, y). num_less (as_float64 x) (as_float64 y)) (zip p c))"

text \<open>Lines 94-103: rows whose price is below the cost, both coerced to numbers.\<close>

definition price_below_cost_mask :: "lib \<Rightarrow> cell list \<Rightarrow> cell list \<Rightarrow> bool list" where
  "price_below_cost_mask L price_column cost_column =
     (let price = coerce_numeric L price_column;
          cost = coerce_numeric L cost_column
      in map (\<lambda>(lt, p, c). lt \<and> \<not> isnull p \<and> \<not> isnull c)
           (zip (lt_series price cost) (zip price cost)))"

definition check_price :: "lib \<Rightarrow> dataset \<Rightarrow> error + nat list" where
  "check_price L df =
     (if ''Price'' \<in> set (columns df) \<and> ''Unit Cost'' \<in> set (columns df) then
        (case series TypeError df ''Price'' of
           Inl e \<Rightarrow> Inl e
         | Inr price \<Rightarrow>
             (case series TypeError df ''Unit Cost'' of
                Inl e \<Rightarrow> Inl e
              | Inr cost \<Rightarrow>
                  (let below_mask = price_below_cost_mask L price cost in
                   if list_ex (\<lambda>b. b) below_mask then Inr (rows_where (\<lambda>b. b) below_mask)
                   else Inr [])))
      else Inr [])"

text \<open>Lines 105-108: the column names that contain a newline.\<close>

definition check_column_names :: "dataset \<Rightarrow> string list" where
  "check_column_names df = filter (\<lambda>col. nl \<in> set col) (columns df)"

text \<open>
  Lines 110-118: special characters in \<open>Class\<close>. The \<open>.str\<close> accessor raises
  AttributeError on a column that is not of object dtype, which is the dtype the readers
  give exactly to the columns that hold a string; cells that are not strings count as
  no match (\<open>na=False\<close>).
\<close>

definition is_str :: "cell \<Rightarrow> bool" where
  "is_str c = (case c of CStr _ \<Rightarrow> True | _ \<Rightarrow> False)"

definition cell_special :: "cell \<Rightarrow> bool" where
  "cell_special c = (case c of CStr s \<Rightarrow> contains_special s | _ \<Rightarrow> False)"

definition check_special :: "dataset \<Rightarrow> error + special_issue list" where
  "check_special df =
     (if ''Class'' \<in> set (columns df) then
        (case series AttributeError df ''Class'' of
           Inl e \<Rightarrow> Inl e
         | Inr v \<Rightarrow>
             if \<not> list_ex is_str v then Inl AttributeError
             else (let rows_with_special_chars = rows_where cell_special v in
                   if rows_with_special_chars \<noteq> []
                   then Inr [\<lparr>s_field = ''Class'', s_rows = rows_with_special_chars\<rparr>]
                   else Inr []))
      else Inr [])"

text \<open>Line 121: every category is empty.\<close>

definition all_empty :: "issues \<Rightarrow> bool" where
  "all_empty iss =
     (length (missing_values iss) = 0 \<and> length (data_type_issues iss) = 0
      \<and> length (price_below_cost iss) = 0 \<and> length (column_name_issues iss) = 0
      \<and> length (special_character_issues iss) = 0)"

definition validate_data :: "lib \<Rightarrow> dataset \<Rightarrow> error + (bool \<times> issues)" where
  "validate_data L df =
     (case check_missing df required_fields [] of
        Inl e \<Rightarrow> Inl e
      | Inr mv \<Rightarrow>
     (case check_types L df expected_types [] of
        Inl e \<Rightarrow> Inl e
      | Inr dt \<Rightarrow>
     (case check_price L df of
        Inl e \<Rightarrow> Inl e
      | Inr pbc \<Rightarrow>
     (case check_special df of
        Inl e \<Rightarrow> Inl e
      | Inr sc \<Rightarrow>
          (let iss = \<lparr>missing_values = mv, data_type_issues = dt, price_below_cost = pbc,
                      column_name_issues = check_column_names df,
                      special_character_issues = sc\<rparr>
           in Inr (all_empty iss, iss))))))"

subsection \<open>clean\_column\_names\<close>

text \<open>\<open>col.replace('\n', ' ')\<close>.\<close>

definition replace_newline :: "string \<Rightarrow> string" where
  "replace_newline col = map (\<lambda>c. if c = nl then CHR '' '' else c) col"

definition clean_column_names :: "dataset \<Rightarrow> dataset" where
  "clean_column_names df = map (\<lambda>c. (replace_newline (fst c), snd c)) df"

subsection \<open>convert\_data\_types\<close>

text \<open>
  \<open>astype('Int64')\<close> on a coerced column accepts a number only when it is whole and fits
  64 bits, and raises TypeError on any other; NaN becomes the missing value of the
  nullable integer type, a boolean the integer 0 or 1.
\<close>

definition int64_ok :: "rat \<Rightarrow> bool" where
  "int64_ok r = (r = of_int \<lfloor>r\<rfloor> \<and> - (2 ^ 63) \<le> \<lfloor>r\<rfloor> \<and> \<lfloor>r\<rfloor> < 2 ^ 63)"

definition astype_Int64 :: "cell list \<Rightarrow> error + cell list" where
  "astype_Int64 v =
     (if list_all (\<lambda>c. case c of CNum r \<Rightarrow> int64_ok r | CInt _ \<Rightarrow> int64_cell c
                        | CInf _ \<Rightarrow> False | _ \<Rightarrow> True) v
      then Inr (map (\<lambda>c. case c of CNum r \<Rightarrow> CInt \<lfloor>r\<rfloor>
                          | CBool b \<Rightarrow> CInt (if b then 1 else 0) | _ \<Rightarrow> c) v)
      else Inl TypeError)"

text \<open>
  Lines 163-175. The nullable integer column that the cast returns holds \<open>CInt\<close> cells
  and nulls; it is not told apart from a float64 column of the same values.
\<close>

fun convert_loop :: "lib \<Rightarrow> (string \<times> string) list \<Rightarrow> dataset \<Rightarrow> error + dataset" where
  "convert_loop L [] converted_df = Inr converted_df"
| "convert_loop L ((col, expected_type) # rest) converted_df =
     (if col \<in> set (columns converted_df) then
        (if expected_type = ''int'' then
           (case series TypeError converted_df col of
              Inl e \<Rightarrow> Inl e
            | Inr v \<Rightarrow>
                (case astype_Int64 (coerce_numeric L v) of
                   Inl e \<Rightarrow> Inl e
                 | Inr w \<Rightarrow> convert_loop L rest (update_column col (\<lambda>_. w) converted_df)))
         else if expected_type = ''numeric'' then
           (case series TypeError converted_df col of
              Inl e \<Rightarrow> Inl e
            | Inr v \<Rightarrow>
                convert_loop L rest (update_column col (\<lambda>_. coerce_numeric L v) converted_df))
         else convert_loop L rest converted_df)
      else convert_loop L rest converted_df)"

definition convert_data_types :: "lib \<Rightarrow> dataset \<Rightarrow> error + dataset" where
  "convert_data_types L df = convert_loop L expected_types df"

section \<open>InventoryProcessor\<close>

text \<open>
  What \<open>pd.read_excel\<close> or \<open>pd.read_csv\<close> did with the file: the extension is not
  supported, the reader raised, or it returned a DataFrame.
\<close>

datatype read_outcome = Unsupported string | ReadFailed string | Parsed dataset

definition read_inventory_file :: "read_outcome \<Rightarrow> dataset option \<times> string option" where
  "read_inventory_file src = (case src of
       Unsupported ext \<Rightarrow> (None, Some (''Unsupported file format: '' @ ext))
     | ReadFailed msg \<Rightarrow> (None, Some (''Error reading inventory file: '' @ msg))
     | Parsed df \<Rightarrow>
         if df_empty df then (None, Some ''The inventory file is empty'')
         else (Some df, None))"

record results =
  success :: bool
  validation_passed :: bool
  validation_issues :: "issues option"
  error_message :: "string option"
  records_processed :: nat
  records_with_issues :: nat

definition initial_results :: results where
  "initial_results =
     \<lparr>success = False, validation_passed = False, validation_issues = None,
      error_message = None, records_processed = 0, records_with_issues = 0\<rparr>"

text \<open>Lines 114-129: the set of row indices named by the row-scoped categories.\<close>

fun update_all :: "nat set \<Rightarrow> nat list list \<Rightarrow> nat set" where
  "update_all s [] = s"
| "update_all s (r # rs) = update_all (s \<union> set r) rs"

definition count_records_with_issues :: "issues \<Rightarrow> nat" where
  "count_records_with_issues vi =
     (let s0 = {};
          s1 = update_all s0 (map m_rows (missing_values vi));
          s2 = update_all s1 (map t_rows (data_type_issues vi));
          s3 = s2 \<union> set (price_below_cost vi);
          s4 = update_all s3 (map s_rows (special_character_issues vi))
      in card s4)"

subsection \<open>fix\_missing\_values\<close>

definition fillna :: "cell \<Rightarrow> cell list \<Rightarrow> cell list" where
  "fillna x v = map (\<lambda>c. if isnull c then x else c) v"

text \<open>
  \<open>is_numeric_dtype\<close>, for the dtype that the readers infer from the cells: the column
  holds numbers and nulls only. (A boolean column is numeric too, but it holds no null,
  so that filling it changes nothing.) A column of object dtype that holds nothing but
  numbers and nulls, which the code leaves as it is, is outside the model.
\<close>

definition is_numeric_dtype :: "cell list \<Rightarrow> bool" where
  "is_numeric_dtype v =
     list_all (\<lambda>c. case c of CNull \<Rightarrow> True | CInt _ \<Rightarrow> True | CNum _ \<Rightarrow> True
                    | CInf _ \<Rightarrow> True | _ \<Rightarrow> False) v"

text \<open>
  Lines 166-170. With a duplicated column name \<open>fixed_df[col]\<close> is a DataFrame, which
  \<open>is_numeric_dtype\<close> does not take for numeric. Filling with a median that is NaN
  changes nothing.
\<close>

fun fill_median :: "lib \<Rightarrow> string list \<Rightarrow> dataset \<Rightarrow> dataset" where
  "fill_median L [] fixed_df = fixed_df"
| "fill_median L (col # rest) fixed_df =
     (if col \<in> set (columns fixed_df) then
        (case get_columns fixed_df col of
           [v] \<Rightarrow>
             if is_numeric_dtype v then
               (let median_value = series_median L v
                in fill_median L rest (update_column col (fillna median_value) fixed_df))
             else fill_median L rest fixed_df
         | _ \<Rightarrow> fill_median L rest fixed_df)
      else fill_median L rest fixed_df)"

definition fix_missing_values :: "lib \<Rightarrow> dataset \<Rightarrow> dataset" where
  "fix_missing_values L df =
     (let fixed_df =
            (if ''Drivetrain Type'' \<in> set (columns df)
             then update_column ''Drivetrain Type'' (fillna (CStr ''Unknown'')) df
             else df)
      in fill_median L [''J.D. Power Trade In'', ''J.D. Power Retail Clean''] fixed_df)"

subsection \<open>process\_inventory\<close>

text \<open>
  Lines 87-144, on the outcome of the read. \<open>Inl\<close> is an exception that leaves the
  method; the validation report, a string built from the results, is not modelled.
\<close>

definition process_inventory :: "lib \<Rightarrow> read_outcome \<Rightarrow> error + (dataset option \<times> results)" where
  "process_inventory L src =
     (case read_inventory_file src of
        (_, Some error) \<Rightarrow>
          if error \<noteq> [] then Inr (None, initial_results\<lparr>error_message := Some error\<rparr>)
          else Inl TypeError
      | (None, None) \<Rightarrow> Inl TypeError
      | (Some df0, None) \<Rightarrow>
          (let original_count = len_df df0;
               df1 = clean_column_names df0
           in case validate_data L df1 of
                Inl e \<Rightarrow> Inl e
              | Inr (passed, vi) \<Rightarrow>
                  (case convert_data_types L df1 of
                     Inl e \<Rightarrow> Inl e
                   | Inr df2 \<Rightarrow>
                       Inr (Some (fix_missing_values L df2),
                            initial_results
                              \<lparr>records_processed := original_count,
                               validation_passed := passed,
                               validation_issues := Some vi,
                               records_with_issues := count_records_with_issues vi,
                               success := True\<rparr>))))"

section \<open>UploadHandler\<close>

subsection \<open>mark\_records\_with\_issues\<close>

text \<open>\<open>df[name] = value\<close> for a scalar: an existing column is overwritten, a new one is appended.\<close>

definition set_column :: "string \<Rightarrow> cell \<Rightarrow> dataset \<Rightarrow> dataset" where
  "set_column name x df =
     (if name \<in> set (columns df) then update_column name (map (\<lambda>_. x)) df
      else df @ [(name, replicate (len_df df) x)])"

definition append_text :: "string \<Rightarrow> cell \<Rightarrow> cell" where
  "append_text msg c = (case c of CStr t \<Rightarrow> CStr (t @ msg) | _ \<Rightarrow> c)"

text \<open>
  The two \<open>.loc\<close> assignments for one row. The row indices come from the validation of
  the same rows; an index outside the frame makes the read of \<open>issue_type\<close> fail.
\<close>

definition mark_row :: "string \<Rightarrow> nat \<Rightarrow> dataset \<Rightarrow> error + dataset" where
  "mark_row msg row df =
     (if row < len_df df then
        Inr (update_column ''issue_type'' (\<lambda>v. v[row := append_text msg (v ! row)])
              (update_column ''has_issues'' (\<lambda>v. v[row := CBool True]) df))
      else Inl TypeError)"

fun mark_rows :: "string \<Rightarrow> nat list \<Rightarrow> dataset \<Rightarrow> error + dataset" where
  "mark_rows msg [] df = Inr df"
| "mark_rows msg (row # rest) df =
     (case mark_row msg row df of Inl e \<Rightarrow> Inl e | Inr df' \<Rightarrow> mark_rows msg rest df')"

fun mark_entries :: "(string \<times> nat list) list \<Rightarrow> dataset \<Rightarrow> error + dataset" where
  "mark_entries [] df = Inr df"
| "mark_entries ((msg, rows) # rest) df =
     (case mark_rows msg rows df of Inl e \<Rightarrow> Inl e | Inr df' \<Rightarrow> mark_entries rest df')"

definition mark_records_with_issues :: "dataset \<Rightarrow> issues \<Rightarrow> error + dataset" where
  "mark_records_with_issues df vi =
     (let marked_df = set_column ''issue_type'' (CStr []) (set_column ''has_issues'' (CBool False) df)
      in case mark_entries
                (map (\<lambda>i. (''Missing '' @ m_field i @ ''; '', m_rows i)) (missing_values vi))
                marked_df of
           Inl e \<Rightarrow> Inl e
         | Inr d1 \<Rightarrow>
        (case mark_entries
                (map (\<lambda>i. (''Invalid '' @ t_field i @ '' format; '', t_rows i)) (data_type_issues vi))
                d1 of
           Inl e \<Rightarrow> Inl e
         | Inr d2 \<Rightarrow>
        (case mark_rows ''Price below cost; '' (price_below_cost vi) d2 of
           Inl e \<Rightarrow> Inl e
         | Inr d3 \<Rightarrow>
            mark_entries
              (map (\<lambda>i. (''Special characters in '' @ s_field i @ ''; '', s_rows i))
                 (special_character_issues vi))
              d3)))"

subsection \<open>format\_for\_upload\<close>

definition numeric_columns :: "string list" where
  "numeric_columns =
     [''Year'', ''Odometer'', ''Price'', ''Unit Cost'', ''J.D. Power Trade In'',
      ''J.D. Power Retail Clean'']"

definition text_columns :: "string list" where
  "text_columns = [''Make'', ''Model'', ''Series'', ''Class'', ''Engine'', ''Body'', ''Transmission'']"

fun numeric_loop :: "lib \<Rightarrow> string list \<Rightarrow> dataset \<Rightarrow> error + dataset" where
  "numeric_loop L [] formatted_df = Inr formatted_df"
| "numeric_loop L (col # rest) formatted_df =
     (if col \<in> set (columns formatted_df) then
        (case series TypeError formatted_df col of
           Inl e \<Rightarrow> Inl e
         | Inr v \<Rightarrow> numeric_loop L rest (update_column col (\<lambda>_. coerce_numeric L v) formatted_df))
      else numeric_loop L rest formatted_df)"

text \<open>
  The class \<open>\w\<close> of Python's \<open>re\<close> on the characters below 256: the ASCII letters and
  digits, the underscore, and the alphanumeric characters of the upper half (the
  ordinal indicators, the micro sign, the superscript digits, the vulgar fractions and
  the accented letters, which leaves out the multiplication and the division sign).
\<close>

definition is_word :: "char \<Rightarrow> bool" where
  "is_word c =
     (is_letter c \<or> is_digit c \<or> c = CHR ''_''
      \<or> (of_char c :: nat) \<in> {170, 178, 179, 181, 185, 186, 188, 189, 190}
      \<or> (192 \<le> (of_char c :: nat) \<and> (of_char c :: nat) \<le> 214)
      \<or> (216 \<le> (of_char c :: nat) \<and> (of_char c :: nat) \<le> 246)
      \<or> 248 \<le> (of_char c :: nat))"

text \<open>\<open>str.replace(r'[^\w\s,.-]', ' ', regex=True)\<close> on one string.\<close>

definition keep_char :: "char \<Rightarrow> bool" where
  "keep_char c =
     (is_word c \<or> is_space c \<or> c = CHR '','' \<or> c = CHR ''.'' \<or> c = CHR ''-'')"

definition clean_text :: "string \<Rightarrow> string" where
  "clean_text t = map (\<lambda>c. if keep_char c then c else CHR '' '') t"

fun text_loop :: "lib \<Rightarrow> string list \<Rightarrow> dataset \<Rightarrow> error + dataset" where
  "text_loop L [] formatted_df = Inr formatted_df"
| "text_loop L (col # rest) formatted_df =
     (if col \<in> set (columns formatted_df) then
        (case series AttributeError formatted_df col of
           Inl e \<Rightarrow> Inl e
         | Inr v \<Rightarrow>
             text_loop L rest
               (update_column col (\<lambda>_. map (\<lambda>c. CStr (clean_text (py_str L c))) v) formatted_df))
      else text_loop L rest formatted_df)"

definition format_for_upload :: "lib \<Rightarrow> dataset \<Rightarrow> error + dataset" where
  "format_for_upload L df =
     (let formatted_df = map (\<lambda>c. (replace_newline (fst c), snd c)) df
      in case numeric_loop L numeric_columns formatted_df of
           Inl e \<Rightarrow> Inl e
         | Inr d1 \<Rightarrow>
             (let d2 = (if ''VIN'' \<in> set (columns d1)
                        then update_column ''VIN'' (map (\<lambda>c. CStr (py_str L c))) d1
                        else d1)
              in text_loop L text_columns d2))"

subsection \<open>prepare\_for\_upload\<close>

definition prepare_for_upload :: "lib \<Rightarrow> read_outcome \<Rightarrow> error + (dataset option \<times> results)" where
  "prepare_for_upload L src =
     (case process_inventory L src of
        Inl e \<Rightarrow> Inl e
      | Inr (dfo, res) \<Rightarrow>
          if \<not> success res then Inr (None, res)
          else (case (dfo, validation_issues res) of
                  (Some df, Some vi) \<Rightarrow>
                    (case (if \<not> validation_passed res then mark_records_with_issues df vi
                           else Inr df) of
                       Inl e \<Rightarrow> Inl e
                     | Inr df' \<Rightarrow>
                         (case format_for_upload L df' of
                            Inl e \<Rightarrow> Inl e
                          | Inr df'' \<Rightarrow> Inr (Some df'', res)))
                | _ \<Rightarrow> Inl TypeError))"

subsection \<open>upload\_inventory\<close>

text \<open>
  The upload configuration; \<open>None\<close> is a key that the dictionary does not have, for which
  \<open>get\<close> answers the default \<open>True\<close>.
\<close>

record upload_config =
  skip_records_with_issues :: "bool option"
  save_processed_file :: "bool option"
  save_results :: "bool option"

definition get_default_true :: "bool option \<Rightarrow> bool" where
  "get_default_true v = (case v of None \<Rightarrow> True | Some b \<Rightarrow> b)"

text \<open>
  \<open>df[~df['has_issues']]\<close>: the negated mask of a boolean column. On a column of
  integers (or of integers and booleans) the negation is the bitwise one, and the
  selection by its result, which is no mask, raises KeyError; on a column with a null,
  a float or a string the negation itself raises TypeError.
\<close>

definition is_int :: "cell \<Rightarrow> bool" where
  "is_int c = (case c of CInt _ \<Rightarrow> True | _ \<Rightarrow> False)"

definition invert_mask :: "cell list \<Rightarrow> error + bool list" where
  "invert_mask v =
     (if list_all is_bool v then Inr (map (\<lambda>c. c = CBool False) v)
      else if list_all (\<lambda>c. is_bool c \<or> is_int c) v then Inl KeyError
      else Inl TypeError)"

text \<open>\<open>df[mask]\<close>: the rows at which the mask holds, with the index labels they keep.\<close>

definition select_rows :: "bool list \<Rightarrow> 'a list \<Rightarrow> 'a list" where
  "select_rows keep v = map fst (filter snd (zip v keep))"

definition filter_frame :: "bool list \<Rightarrow> dataset \<Rightarrow> dataset" where
  "filter_frame keep df = map (\<lambda>c. (fst c, select_rows keep (snd c))) df"

text \<open>Lines 186-195: the frame \<open>clean_df\<close> and the index labels of its rows.\<close>

definition clean_partition :: "upload_config \<Rightarrow> dataset \<Rightarrow> error + (nat list \<times> dataset)" where
  "clean_partition cfg df =
     (if get_default_true (skip_records_with_issues cfg) then
        (if ''has_issues'' \<in> set (columns df) then
           (case series ValueError df ''has_issues'' of
              Inl e \<Rightarrow> Inl e
            | Inr v \<Rightarrow>
                (case invert_mask v of
                   Inl e \<Rightarrow> Inl e
                 | Inr keep \<Rightarrow> Inr (rows_where (\<lambda>b. b) keep, filter_frame keep df)))
         else Inr ([0..<len_df df], df))
      else Inr ([0..<len_df df], df))"

text \<open>
  The results of the upload. The text of the message is not modelled: the field holds
  the exception that the \<open>try\<close> block caught.
\<close>

record upload_results =
  u_success :: bool
  records_uploaded :: nat
  records_failed :: nat
  u_error_message :: "error option"

definition upload_inventory :: "upload_config \<Rightarrow> dataset \<Rightarrow> upload_results" where
  "upload_inventory cfg df =
     (case clean_partition cfg df of
        Inr (idx, clean_df) \<Rightarrow>
          \<lparr>u_success = True, records_uploaded = len_df clean_df, records_failed = 0,
           u_error_message = None\<rparr>
      | Inl e \<Rightarrow>
          \<lparr>u_success = False, records_uploaded = 0, records_failed = len_df df,
           u_error_message = Some e\<rparr>)"

subsection \<open>handle\_upload\_process\<close>

definition default_config :: upload_config where
  "default_config =
     \<lparr>skip_records_with_issues = Some True, save_processed_file = Some True,
      save_results = Some True\<rparr>"

text \<open>
  Lines 254-292 without the files written on the way. The result is the preparation
  results alone when the preparation failed, and otherwise both dictionaries, of which
  the second overrides the keys they share.
\<close>

definition handle_upload_process ::
    "lib \<Rightarrow> read_outcome \<Rightarrow> upload_config option \<Rightarrow> error + (results \<times> upload_results option)" where
  "handle_upload_process L src cfg =
     (let upload_config = (case cfg of None \<Rightarrow> default_config | Some c \<Rightarrow> c)
      in case prepare_for_upload L src of
           Inl e \<Rightarrow> Inl e
         | Inr (None, prep_results) \<Rightarrow> Inr (prep_results, None)
         | Inr (Some df, prep_results) \<Rightarrow>
             Inr (prep_results, Some (upload_inventory upload_config df)))"

section \<open>An instance of the library parameters\<close>

text \<open>
  For the evaluations at concrete inputs: a parser for plain decimal numerals
  (an optional minus sign, digits, an optional fraction), the decimal notation of a
  number with a short fraction, and the exact median of the finite numbers of a
  column. They agree with pandas and Python on the inputs of the evaluations below,
  whose numbers are floats.
\<close>

definition digits_value :: "string \<Rightarrow> int" where
  "digits_value ds = foldl (\<lambda>a c. 10 * a + (of_char c - 48)) 0 ds"

definition parse_unsigned :: "bool \<Rightarrow> string \<Rightarrow> parsed option" where
  "parse_unsigned neg s =
     (let ip = takeWhile is_digit s; r = dropWhile is_digit s;
          sg = (if neg then - 1 else 1) in
      if ip = [] then None
      else (case r of
              [] \<Rightarrow> Some (PInt (sg * digits_value ip))
            | c # fp \<Rightarrow>
                if c = CHR ''.'' \<and> list_all is_digit fp
                then Some (PFloat (of_int sg * (of_int (digits_value ip)
                                    + of_int (digits_value fp) / 10 ^ length fp)))
                else None))"

definition parse_decimal :: "string \<Rightarrow> parsed option" where
  "parse_decimal s = (case s of
       [] \<Rightarrow> None
     | c # cs \<Rightarrow>
         if c = CHR ''-'' then parse_unsigned True cs else parse_unsigned False s)"

definition numbers_of :: "cell list \<Rightarrow> rat list" where
  "numbers_of v = concat (map (\<lambda>c. case c of CInt i \<Rightarrow> [of_int i] | CNum r \<Rightarrow> [r] | _ \<Rightarrow> []) v)"

definition exact_median :: "cell list \<Rightarrow> cell" where
  "exact_median v =
     (let ys = sort (numbers_of v); n = length ys in
      if n = 0 then CNull
      else if odd n then CNum (ys ! (n div 2))
      else CNum ((ys ! (n div 2 - 1) + ys ! (n div 2)) / 2))"

fun fraction_digits :: "nat \<Rightarrow> rat \<Rightarrow> string" where
  "fraction_digits 0 f = []"
| "fraction_digits (Suc n) f =
     (if f = 0 then []
      else char_of (48 + nat \<lfloor>f * 10\<rfloor>) # fraction_digits n (f * 10 - of_int \<lfloor>f * 10\<rfloor>))"

definition decimal_str :: "rat \<Rightarrow> string" where
  "decimal_str r =
     (let a = \<bar>r\<bar>; f = a - of_int \<lfloor>a\<rfloor> in
      (if r < 0 then ''-'' else []) @ str_nat \<lfloor>a\<rfloor> @ ''.''
        @ (if f = 0 then ''0'' else fraction_digits 17 f))"

definition decimal_lib :: lib where
  "decimal_lib =
     \<lparr>parse_float = parse_decimal, float_str = decimal_str, series_median = exact_median\<rparr>"

section \<open>The flagged partition\<close>

text \<open>
  \<open>upload_inventory\<close> builds the clean partition only and counts the rows it skipped.
  This second definition follows the words of the specification, for which the flagged
  partition is "the rest": the rows of the frame that the clean partition does not hold.
\<close>

definition flagged_rest :: "nat list \<Rightarrow> dataset \<Rightarrow> nat list" where
  "flagged_rest clean_index df = filter (\<lambda>i. i \<notin> set clean_index) [0..<len_df df]"

section \<open>Integers that float64 holds exactly\<close>




section \<open>Column-name cleaning\<close>

lemma replace_newline_idem: "replace_newline (replace_newline s) = replace_newline s"
  by (induction s) (simp_all add: replace_newline_def nl_def)

lemma replace_newline_no_nl: "nl \<notin> set (replace_newline s)"
  by (induction s) (simp_all add: replace_newline_def nl_def)

lemma columns_clean: "columns (clean_column_names df) = map replace_newline (columns df)"
  by (simp add: columns_def clean_column_names_def comp_def)

text \<open>
  C9: \<open>clean_column_names\<close> is idempotent; in every column name it puts a space at each
  position that held a newline and keeps every other character, so that no name of the
  result contains a newline; and it leaves the cell values of every column unchanged.
\<close>

theorem clean_column_names_idempotent_structural:
  "clean_column_names (clean_column_names df) = clean_column_names df
   \<and> map snd (clean_column_names df) = map snd df
   \<and> length (clean_column_names df) = length df
   \<and> (\<forall>k < length df.
        length (columns (clean_column_names df) ! k) = length (columns df ! k)
        \<and> nl \<notin> set (columns (clean_column_names df) ! k)
        \<and> (\<forall>j < length (columns df ! k).
              columns (clean_column_names df) ! k ! j
                = (if columns df ! k ! j = nl then CHR '' '' else columns df ! k ! j)))"
proof -
  have idem: "clean_column_names (clean_column_names df) = clean_column_names df"
    by (simp add: clean_column_names_def comp_def replace_newline_idem)
  have vals: "map snd (clean_column_names df) = map snd df"
    by (simp add: clean_column_names_def comp_def)
  have len: "length (clean_column_names df) = length df"
    by (simp add: clean_column_names_def)
  have names: "\<forall>k < length df.
        length (columns (clean_column_names df) ! k) = length (columns df ! k)
        \<and> nl \<notin> set (columns (clean_column_names df) ! k)
        \<and> (\<forall>j < length (columns df ! k).
              columns (clean_column_names df) ! k ! j
                = (if columns df ! k ! j = nl then CHR '' '' else columns df ! k ! j))"
  proof (intro allI impI)
    fix k assume k: "k < length df"
    then have eq: "columns (clean_column_names df) ! k = replace_newline (columns df ! k)"
      unfolding columns_clean by (simp add: columns_def)
    show "length (columns (clean_column_names df) ! k) = length (columns df ! k)
        \<and> nl \<notin> set (columns (clean_column_names df) ! k)
        \<and> (\<forall>j < length (columns df ! k).
              columns (clean_column_names df) ! k ! j
                = (if columns df ! k ! j = nl then CHR '' '' else columns df ! k ! j))"
      unfolding eq using replace_newline_no_nl [of "columns df ! k"]
      by (simp add: replace_newline_def)
  qed
  from idem vals len names show ?thesis by blast
qed

theorem clean_column_names_idempotent_structural_witness:
  "clean_column_names (clean_column_names [(''A'' @ [nl] @ ''B'', [CInt 1])])
     = clean_column_names [(''A'' @ [nl] @ ''B'', [CInt 1])]
   \<and> clean_column_names [(''A'' @ [nl] @ ''B'', [CInt 1])] = [(''A B'', [CInt 1])]
   \<and> (0::nat) < length [(''A'' @ [nl] @ ''B'', [CInt 1])]
   \<and> nl \<notin> set (columns (clean_column_names [(''A'' @ [nl] @ ''B'', [CInt 1])]) ! 0)"
  using clean_column_names_idempotent_structural [of "[(''A'' @ [nl] @ ''B'', [CInt 1])]"]
  by (simp add: clean_column_names_def replace_newline_def nl_def columns_def)

section \<open>The verdict of the validation\<close>

text \<open>
  C5: whenever \<open>validate_data\<close> returns, its boolean verdict is true exactly when each of
  the five categories of the returned report (\<open>missing_values\<close>, \<open>data_type_issues\<close>,
  \<open>price_below_cost\<close>, \<open>column_name_issues\<close>, \<open>special_character_issues\<close>) is empty.
\<close>

theorem validate_data_passed_iff:
  "validate_data L df = Inr (passed, vi) \<Longrightarrow>
     passed = (missing_values vi = [] \<and> data_type_issues vi = [] \<and> price_below_cost vi = []
               \<and> column_name_issues vi = [] \<and> special_character_issues vi = [])"
  by (auto simp: validate_data_def all_empty_def Let_def split: sum.splits)

theorem validate_data_passed_iff_witness:
  "validate_data decimal_lib [(''VIN'', [CStr ''1G1'', CNull]), (''Class'', [CStr ''SUV'', CStr ''Car#''])]
     = Inr (False,
            \<lparr>missing_values = [\<lparr>m_field = ''VIN'', m_count = 1, m_rows = [1]\<rparr>],
             data_type_issues = [], price_below_cost = [], column_name_issues = [],
             special_character_issues = [\<lparr>s_field = ''Class'', s_rows = [1]\<rparr>]\<rparr>)
   \<and> validate_data decimal_lib [(''VIN'', [CStr ''1G1'', CStr ''1G2'']), (''Class'', [CStr ''SUV'', CStr ''Car''])]
     = Inr (True,
            \<lparr>missing_values = [], data_type_issues = [], price_below_cost = [],
             column_name_issues = [], special_character_issues = []\<rparr>)"
proof -
  have h1: "validate_data decimal_lib [(''VIN'', [CStr ''1G1'', CNull]), (''Class'', [CStr ''SUV'', CStr ''Car#''])]
     = Inr (False,
            \<lparr>missing_values = [\<lparr>m_field = ''VIN'', m_count = 1, m_rows = [1]\<rparr>],
             data_type_issues = [], price_below_cost = [], column_name_issues = [],
             special_character_issues = [\<lparr>s_field = ''Class'', s_rows = [1]\<rparr>]\<rparr>)"
    by code_simp
  have h2: "validate_data decimal_lib [(''VIN'', [CStr ''1G1'', CStr ''1G2'']), (''Class'', [CStr ''SUV'', CStr ''Car''])]
     = Inr (True,
            \<lparr>missing_values = [], data_type_issues = [], price_below_cost = [],
             column_name_issues = [], special_character_issues = []\<rparr>)"
    by code_simp
  from validate_data_passed_iff [OF h1] validate_data_passed_iff [OF h2] h1 h2
  show ?thesis by simp
qed

section \<open>The empty dataset\<close>

text \<open>
  C8: on an empty dataset the run fails fast. \<open>process_inventory\<close> returns no frame and
  results with \<open>success = False\<close> and the message "The inventory file is empty"; no
  validation report is stored and no record is counted; the preparation returns the same,
  and the whole upload process returns these results without any upload results, so no
  validation, transformation or partitioning took place.
\<close>

theorem empty_dataset_fails_fast:
  "df_empty df \<Longrightarrow>
     process_inventory L (Parsed df)
       = Inr (None, \<lparr>success = False, validation_passed = False, validation_issues = None,
                     error_message = Some ''The inventory file is empty'',
                     records_processed = 0, records_with_issues = 0\<rparr>)
     \<and> prepare_for_upload L (Parsed df)
       = Inr (None, \<lparr>success = False, validation_passed = False, validation_issues = None,
                     error_message = Some ''The inventory file is empty'',
                     records_processed = 0, records_with_issues = 0\<rparr>)
     \<and> handle_upload_process L (Parsed df) cfg
       = Inr (\<lparr>success = False, validation_passed = False, validation_issues = None,
                     error_message = Some ''The inventory file is empty'',
                     records_processed = 0, records_with_issues = 0\<rparr>, None)"
  by (simp add: process_inventory_def read_inventory_file_def initial_results_def
        prepare_for_upload_def handle_upload_process_def)

theorem empty_dataset_fails_fast_witness:
  "df_empty [(''Year'', [])]
   \<and> handle_upload_process decimal_lib (Parsed [(''Year'', [])]) None
       = Inr (\<lparr>success = False, validation_passed = False, validation_issues = None,
                     error_message = Some ''The inventory file is empty'',
                     records_processed = 0, records_with_issues = 0\<rparr>, None)"
proof -
  have h: "df_empty [(''Year'', [])]" by (simp add: df_empty_def len_df_def)
  from empty_dataset_fails_fast [OF h, of decimal_lib None] h show ?thesis by simp
qed

section \<open>Completed runs\<close>

lemma process_inventory_success:
  assumes "process_inventory L src = Inr (dfo, res)" and "success res"
  shows "\<exists>df0 df2 passed vi.
           src = Parsed df0 \<and> \<not> df_empty df0
           \<and> validate_data L (clean_column_names df0) = Inr (passed, vi)
           \<and> convert_data_types L (clean_column_names df0) = Inr df2
           \<and> dfo = Some (fix_missing_values L df2)
           \<and> res = \<lparr>success = True, validation_passed = passed, validation_issues = Some vi,
                     error_message = None, records_processed = len_df df0,
                     records_with_issues = count_records_with_issues vi\<rparr>"
  using assms
  by (cases src)
     (auto simp: process_inventory_def read_inventory_file_def initial_results_def Let_def
           split: if_splits sum.splits prod.splits option.splits)

lemma update_all_union: "update_all s rs = s \<union> \<Union> (set ` set rs)"
  by (induction rs arbitrary: s) auto

lemma count_records_union:
  "count_records_with_issues vi =
     card (\<Union> (set ` m_rows ` set (missing_values vi))
           \<union> \<Union> (set ` t_rows ` set (data_type_issues vi))
           \<union> set (price_below_cost vi)
           \<union> \<Union> (set ` s_rows ` set (special_character_issues vi)))"
  by (simp add: count_records_with_issues_def Let_def update_all_union image_image)

lemma count_records_ignores_names:
  "count_records_with_issues (vi\<lparr>column_name_issues := names\<rparr>) = count_records_with_issues vi"
  by (simp add: count_records_with_issues_def)

text \<open>
  C6: after a completed run \<open>records_with_issues\<close> is the number of elements of the union
  of the row indices listed under \<open>missing_values\<close>, \<open>data_type_issues\<close>,
  \<open>price_below_cost\<close> and \<open>special_character_issues\<close>, a row named several times counting
  once; and the count is the same whatever \<open>column_name_issues\<close> holds.
\<close>

theorem records_with_issues_is_union_card:
  assumes "process_inventory L src = Inr (dfo, res)" and "success res"
  shows "\<exists>vi. validation_issues res = Some vi
          \<and> records_with_issues res =
              card (\<Union> (set ` m_rows ` set (missing_values vi))
                    \<union> \<Union> (set ` t_rows ` set (data_type_issues vi))
                    \<union> set (price_below_cost vi)
                    \<union> \<Union> (set ` s_rows ` set (special_character_issues vi)))
          \<and> (\<forall>names. count_records_with_issues (vi\<lparr>column_name_issues := names\<rparr>)
                        = records_with_issues res)"
proof -
  from process_inventory_success [OF assms] obtain df0 df2 passed vi where
    res: "res = \<lparr>success = True, validation_passed = passed, validation_issues = Some vi,
                 error_message = None, records_processed = len_df df0,
                 records_with_issues = count_records_with_issues vi\<rparr>"
    by blast
  show ?thesis
    unfolding res using count_records_union [of vi] by (simp add: count_records_ignores_names)
qed

theorem records_with_issues_is_union_card_witness:
  "process_inventory decimal_lib
     (Parsed [(''VIN'', [CNull, CStr ''a'', CStr ''b'']),
              (''Year'', [CStr ''x'', CInt 2020, CInt 2021]),
              (''Price'', [CInt 5, CInt 5, CInt 9]),
              (''Unit Cost'', [CInt 6, CInt 7, CInt 8])])
   = Inr (Some [(''VIN'', [CNull, CStr ''a'', CStr ''b'']),
                (''Year'', [CNull, CInt 2020, CInt 2021]),
                (''Price'', [CInt 5, CInt 5, CInt 9]),
                (''Unit Cost'', [CInt 6, CInt 7, CInt 8])],
          \<lparr>success = True, validation_passed = False,
           validation_issues = Some
             \<lparr>missing_values = [\<lparr>m_field = ''VIN'', m_count = 1, m_rows = [0]\<rparr>],
              data_type_issues = [\<lparr>t_field = ''Year'', t_expected_type = ''int'', t_rows = [0]\<rparr>],
              price_below_cost = [0, 1], column_name_issues = [],
              special_character_issues = []\<rparr>,
           error_message = None, records_processed = 3, records_with_issues = 2\<rparr>)
   \<and> card ({0} \<union> {0} \<union> {0, 1::nat} \<union> {}) = 2"
proof -
  have h: "process_inventory decimal_lib
     (Parsed [(''VIN'', [CNull, CStr ''a'', CStr ''b'']),
              (''Year'', [CStr ''x'', CInt 2020, CInt 2021]),
              (''Price'', [CInt 5, CInt 5, CInt 9]),
              (''Unit Cost'', [CInt 6, CInt 7, CInt 8])])
   = Inr (Some [(''VIN'', [CNull, CStr ''a'', CStr ''b'']),
                (''Year'', [CNull, CInt 2020, CInt 2021]),
                (''Price'', [CInt 5, CInt 5, CInt 9]),
                (''Unit Cost'', [CInt 6, CInt 7, CInt 8])],
          \<lparr>success = True, validation_passed = False,
           validation_issues = Some
             \<lparr>missing_values = [\<lparr>m_field = ''VIN'', m_count = 1, m_rows = [0]\<rparr>],
              data_type_issues = [\<lparr>t_field = ''Year'', t_expected_type = ''int'', t_rows = [0]\<rparr>],
              price_below_cost = [0, 1], column_name_issues = [],
              special_character_issues = []\<rparr>,
           error_message = None, records_processed = 3, records_with_issues = 2\<rparr>)"
    by code_simp
  from records_with_issues_is_union_card [OF h] h show ?thesis by simp
qed

section \<open>Column names in the pipeline\<close>

lemma check_column_names_clean: "check_column_names (clean_column_names df) = []"
  by (simp add: check_column_names_def columns_clean filter_empty_conv replace_newline_no_nl)

lemma validate_data_column_names:
  "validate_data L df = Inr (passed, vi) \<Longrightarrow> column_name_issues vi = check_column_names df"
  by (auto simp: validate_data_def Let_def split: sum.splits)

text \<open>
  C1 (what the code does): \<open>process_inventory\<close> cleans the column names before it calls
  \<open>validate_data\<close>, so every completed run reports an empty \<open>column_name_issues\<close>, also for
  a raw dataset whose column names contain newlines: the detection never sees the raw
  names.
\<close>

theorem pipeline_reports_no_column_name_issue:
  assumes "process_inventory L src = Inr (dfo, res)" and "success res"
  shows "\<exists>vi. validation_issues res = Some vi \<and> column_name_issues vi = []"
proof -
  from process_inventory_success [OF assms] obtain df0 df2 passed vi where
    v: "validate_data L (clean_column_names df0) = Inr (passed, vi)" and
    res: "res = \<lparr>success = True, validation_passed = passed, validation_issues = Some vi,
                 error_message = None, records_processed = len_df df0,
                 records_with_issues = count_records_with_issues vi\<rparr>"
    by blast
  from validate_data_column_names [OF v] have "column_name_issues vi = []"
    by (simp add: check_column_names_clean)
  then show ?thesis unfolding res by simp
qed

theorem pipeline_reports_no_column_name_issue_witness:
  "nl \<in> set (''J.D. Power'' @ [nl] @ ''Trade In'')
   \<and> process_inventory decimal_lib (Parsed [(''J.D. Power'' @ [nl] @ ''Trade In'', [CInt 1])])
     = Inr (Some [(''J.D. Power Trade In'', [CInt 1])],
            \<lparr>success = True, validation_passed = True,
             validation_issues = Some
               \<lparr>missing_values = [], data_type_issues = [], price_below_cost = [],
                column_name_issues = [], special_character_issues = []\<rparr>,
             error_message = None, records_processed = 1, records_with_issues = 0\<rparr>)"
proof -
  have h: "process_inventory decimal_lib (Parsed [(''J.D. Power'' @ [nl] @ ''Trade In'', [CInt 1])])
     = Inr (Some [(''J.D. Power Trade In'', [CInt 1])],
            \<lparr>success = True, validation_passed = True,
             validation_issues = Some
               \<lparr>missing_values = [], data_type_issues = [], price_below_cost = [],
                column_name_issues = [], special_character_issues = []\<rparr>,
             error_message = None, records_processed = 1, records_with_issues = 0\<rparr>)"
    by code_simp
  from pipeline_reports_no_column_name_issue [OF h] h show ?thesis by simp
qed

section \<open>Type conversion\<close>

text \<open>
  C2 (what the code does): \<open>convert_data_types\<close> is not total. For the dataset whose only
  column is \<open>Year\<close> with the single value 2020.5 the cast to the nullable integer type
  raises TypeError, whatever the library parameters are, and the exception leaves
  \<open>process_inventory\<close>, which has no handler around the conversion: one value aborts
  the run.
\<close>

theorem fractional_year_aborts_conversion:
  "convert_data_types L [(''Year'', [CNum (4041 / 2)])] = Inl TypeError
   \<and> process_inventory L (Parsed [(''Year'', [CNum (4041 / 2)])]) = Inl TypeError"
proof -
  have fl: "\<lfloor>4041 / 2 :: rat\<rfloor> = 2020" by (simp add: floor_eq_iff)
  have conv: "convert_data_types L [(''Year'', [CNum (4041 / 2)])] = Inl TypeError"
    by (simp add: convert_data_types_def expected_types_def columns_def series_def
          get_columns_def coerce_numeric_def is_bool_def int64_cell_def as_float64_def
          astype_Int64_def int64_ok_def fl)
  have clean: "clean_column_names [(''Year'', [CNum (4041 / 2)])] = [(''Year'', [CNum (4041 / 2)])]"
    by (simp add: clean_column_names_def replace_newline_def nl_def)
  have val: "\<exists>p vi. validate_data L [(''Year'', [CNum (4041 / 2)])] = Inr (p, vi)"
    by (simp add: validate_data_def required_fields_def expected_types_def columns_def
          series_def get_columns_def isnull_def check_price_def check_special_def Let_def nl_def)
  then obtain p vi where v: "validate_data L [(''Year'', [CNum (4041 / 2)])] = Inr (p, vi)"
    by blast
  have "process_inventory L (Parsed [(''Year'', [CNum (4041 / 2)])]) = Inl TypeError"
    by (simp add: process_inventory_def read_inventory_file_def df_empty_def len_df_def
          clean v conv)
  with conv show ?thesis by simp
qed

section \<open>Typed columns after name cleaning\<close>

lemma check_types_fields:
  "check_types L df tys acc = Inr r \<Longrightarrow>
     t_field ` set r \<subseteq> t_field ` set acc \<union> (fst ` set tys \<inter> set (columns df))"
proof (induction tys arbitrary: acc)
  case Nil
  then show ?case by simp
next
  case (Cons a tys)
  obtain col ty where a: "a = (col, ty)" by (cases a)
  from Cons.prems show ?case
    unfolding a
    by (auto simp: Let_def split: if_splits sum.splits dest!: Cons.IH) blast+
qed

text \<open>
  C3 (what the code does): the keys of \<open>expected_types\<close> for the two J.D. Power columns
  contain a newline, so on a dataset whose column names contain none (every dataset that
  went through \<open>clean_column_names\<close>) the type rules match \<open>Year\<close>, \<open>Odometer\<close>, \<open>Price\<close>
  and \<open>Unit Cost\<close> only: no \<open>data_type_issues\<close> entry is ever produced for a cleaned J.D.
  Power column, whatever it holds.
\<close>

theorem no_type_entry_for_cleaned_jd_power_columns:
  assumes "validate_data L df = Inr (passed, vi)"
      and "\<forall>name \<in> set (columns df). nl \<notin> set name"
  shows "\<forall>e \<in> set (data_type_issues vi).
           t_field e \<in> {''Year'', ''Odometer'', ''Price'', ''Unit Cost''}"
proof -
  from assms(1) obtain dt where
    dt: "check_types L df expected_types [] = Inr dt" and vi: "data_type_issues vi = dt"
    by (auto simp: validate_data_def Let_def split: sum.splits)
  from check_types_fields [OF dt]
  have sub: "t_field ` set dt \<subseteq> fst ` set expected_types \<inter> set (columns df)" by simp
  show ?thesis
  proof
    fix e assume "e \<in> set (data_type_issues vi)"
    with sub vi have m: "t_field e \<in> fst ` set expected_types" and c: "t_field e \<in> set (columns df)"
      by auto
    from c assms(2) have "nl \<notin> set (t_field e)" by blast
    with m show "t_field e \<in> {''Year'', ''Odometer'', ''Price'', ''Unit Cost''}"
      by (auto simp: expected_types_def)
  qed
qed

theorem no_type_entry_for_cleaned_jd_power_columns_witness:
  "nl \<notin> set ''JD Power Trade In'' \<and> nl \<notin> set ''J.D. Power Retail Clean''
   \<and> parse_float decimal_lib ''abc'' = None \<and> parse_float decimal_lib ''twelve'' = None
   \<and> validate_data decimal_lib [(''JD Power Trade In'', [CStr ''abc'']),
                                 (''J.D. Power Retail Clean'', [CStr ''twelve''])]
     = Inr (True, \<lparr>missing_values = [], data_type_issues = [], price_below_cost = [],
                    column_name_issues = [], special_character_issues = []\<rparr>)"
proof -
  have h1: "validate_data decimal_lib [(''JD Power Trade In'', [CStr ''abc'']),
                                 (''J.D. Power Retail Clean'', [CStr ''twelve''])]
     = Inr (True, \<lparr>missing_values = [], data_type_issues = [], price_below_cost = [],
                    column_name_issues = [], special_character_issues = []\<rparr>)"
    by code_simp
  have h2: "\<forall>name \<in> set (columns [(''JD Power Trade In'', [CStr ''abc'']),
                             (''J.D. Power Retail Clean'', [CStr ''twelve''])]). nl \<notin> set name"
    by (simp add: columns_def nl_def)
  have h3: "parse_float decimal_lib ''abc'' = None \<and> parse_float decimal_lib ''twelve'' = None"
    by code_simp
  have h4: "nl \<notin> set ''JD Power Trade In'' \<and> nl \<notin> set ''J.D. Power Retail Clean''"
    by (simp add: nl_def)
  from no_type_entry_for_cleaned_jd_power_columns [OF h1 h2] h1 h3 h4 show ?thesis by simp
qed

section \<open>Price below cost\<close>


lemma set_rows_where: "set (rows_where P xs) = {i. i < length xs \<and> P (xs ! i)}"
  by (auto simp: rows_where_def)



lemma isnull_as_float64: "isnull (as_float64 c) = isnull c"
  by (cases c) (simp_all add: as_float64_def isnull_def)






lemma length_coerce_numeric: "length (coerce_numeric L v) = length v"
  by (simp add: coerce_numeric_def Let_def)









section \<open>The clean and the flagged partition\<close>

lemma rows_where_snoc:
  "rows_where P (xs @ [x]) = rows_where P xs @ (if P x then [length xs] else [])"
  by (auto simp: rows_where_def nth_append intro: filter_cong)

lemma select_rows_eq_aux:
  "length v = length keep \<longrightarrow>
     select_rows keep v = map (\<lambda>i. v ! i) (rows_where (\<lambda>b. b) keep)"
proof (induction v keep rule: rev_induct2)
  case 1
  show ?case by (simp add: select_rows_def rows_where_def)
next
  case (2 x xs)
  show ?case by simp
next
  case (3 y ys)
  show ?case by simp
next
  case (4 x xs b bs)
  show ?case
  proof
    assume "length (xs @ [x]) = length (bs @ [b])"
    then have len: "length xs = length bs" by simp
    with 4 have ih: "select_rows bs xs = map (\<lambda>i. xs ! i) (rows_where (\<lambda>b. b) bs)" by simp
    have "\<forall>i \<in> set (rows_where (\<lambda>b. b) bs). i < length xs"
      using len by (simp add: set_rows_where)
    then have m: "map (\<lambda>i. (xs @ [x]) ! i) (rows_where (\<lambda>b. b) bs)
                 = map (\<lambda>i. xs ! i) (rows_where (\<lambda>b. b) bs)"
      by (auto simp: nth_append)
    have s: "select_rows (bs @ [b]) (xs @ [x]) = select_rows bs xs @ (if b then [x] else [])"
      using len by (simp add: select_rows_def)
    show "select_rows (bs @ [b]) (xs @ [x])
            = map (\<lambda>i. (xs @ [x]) ! i) (rows_where (\<lambda>b. b) (bs @ [b]))"
    proof -
      have e: "(xs @ [x]) ! length bs = x"
        unfolding len [symmetric] by simp
      show ?thesis by (simp add: s ih m rows_where_snoc e)
    qed
  qed
qed

lemma select_rows_eq:
  "length v = length keep \<Longrightarrow>
     select_rows keep v = map (\<lambda>i. v ! i) (rows_where (\<lambda>b. b) keep)"
  using select_rows_eq_aux by blast

lemma map_const_replicate: "(\<forall>x \<in> set xs. f x = c) \<Longrightarrow> map f xs = replicate (length xs) c"
  by (induction xs) auto

lemma get_columns_filter_frame:
  "get_columns (filter_frame keep df) name = map (select_rows keep) (get_columns df name)"
  by (induction df) (auto simp: get_columns_def filter_frame_def)

lemma columns_filter_frame: "columns (filter_frame keep df) = columns df"
  by (simp add: columns_def filter_frame_def comp_def)

lemma get_columns_in_columns: "get_columns df name \<noteq> [] \<Longrightarrow> name \<in> set (columns df)"
  by (induction df) (auto simp: get_columns_def columns_def split: if_splits)

text \<open>
  C7: for a frame annotated with one boolean \<open>has_issues\<close> column, all columns of one
  length, and the default policy of skipping flagged records, \<open>upload_inventory\<close> keeps as
  clean partition exactly the rows whose flag is false, unchanged and in their order. With
  the flagged partition taken as the rest of the rows, the two partitions are disjoint,
  their union is the row set of the frame, every flagged row has \<open>has_issues = True\<close> and
  every clean row has \<open>has_issues = False\<close>; the number of uploaded records is the size
  of the clean partition.
\<close>

theorem skip_flagged_partition:
  assumes skip: "get_default_true (skip_records_with_issues cfg)"
      and col: "get_columns df ''has_issues'' = [flags]"
      and bools: "list_all is_bool flags"
      and wf: "list_all (\<lambda>c. length (snd c) = length flags) df"
  shows "\<exists>idx clean_df.
           clean_partition cfg df = Inr (idx, clean_df)
           \<and> set idx \<inter> set (flagged_rest idx df) = {}
           \<and> set idx \<union> set (flagged_rest idx df) = {0..<len_df df}
           \<and> (\<forall>i \<in> set (flagged_rest idx df). flags ! i = CBool True)
           \<and> (\<forall>i \<in> set idx. flags ! i = CBool False)
           \<and> get_columns clean_df ''has_issues'' = [replicate (length idx) (CBool False)]
           \<and> columns clean_df = columns df
           \<and> (\<forall>k < length df. snd (clean_df ! k) = map (\<lambda>i. snd (df ! k) ! i) idx)
           \<and> len_df clean_df = length idx
           \<and> records_uploaded (upload_inventory cfg df) = length idx
           \<and> length idx + length (flagged_rest idx df) = len_df df"
proof -
  define keep where "keep = map (\<lambda>c. c = CBool False) flags"
  define idx where "idx = rows_where (\<lambda>b. b) keep"
  define clean_df where "clean_df = filter_frame keep df"
  have lk: "length keep = length flags" by (simp add: keep_def)
  have incol: "''has_issues'' \<in> set (columns df)"
    using col get_columns_in_columns [of df "''has_issues''"] by simp
  have ne: "df \<noteq> []" using col by (auto simp: get_columns_def)
  have n: "len_df df = length flags"
    using ne wf by (cases df) (auto simp: len_df_def)
  have cp: "clean_partition cfg df = Inr (idx, clean_df)"
    using skip incol bools
    by (simp add: clean_partition_def series_def col invert_mask_def keep_def idx_def clean_df_def)
  have idx_set: "set idx = {i. i < length flags \<and> flags ! i = CBool False}"
    by (auto simp: idx_def set_rows_where keep_def)
  have rest_set: "set (flagged_rest idx df) = {i. i < length flags \<and> flags ! i \<noteq> CBool False}"
    by (auto simp: flagged_rest_def n idx_set)
  have a: "set idx \<inter> set (flagged_rest idx df) = {}"
    by (auto simp: idx_set rest_set)
  have b: "set idx \<union> set (flagged_rest idx df) = {0..<len_df df}"
    by (auto simp: idx_set rest_set n)
  have c: "\<forall>i \<in> set (flagged_rest idx df). flags ! i = CBool True"
  proof
    fix i assume "i \<in> set (flagged_rest idx df)"
    then have i: "i < length flags" and nf: "flags ! i \<noteq> CBool False"
      by (auto simp: rest_set)
    from bools i have "is_bool (flags ! i)" by (simp add: list_all_length)
    with nf show "flags ! i = CBool True"
      by (cases "flags ! i") (auto simp: is_bool_def)
  qed
  have d: "\<forall>i \<in> set idx. flags ! i = CBool False"
    by (simp add: idx_set)
  have sel: "\<And>v. length v = length flags \<Longrightarrow> select_rows keep v = map (\<lambda>i. v ! i) idx"
    by (simp add: select_rows_eq lk idx_def)
  have e: "get_columns clean_df ''has_issues'' = [replicate (length idx) (CBool False)]"
    using d by (simp add: clean_df_def get_columns_filter_frame col sel map_const_replicate)
  have f: "columns clean_df = columns df"
    by (simp add: clean_df_def columns_filter_frame)
  have g: "\<forall>k < length df. snd (clean_df ! k) = map (\<lambda>i. snd (df ! k) ! i) idx"
  proof (intro allI impI)
    fix k assume k: "k < length df"
    with wf have "length (snd (df ! k)) = length flags" by (simp add: list_all_length)
    with k show "snd (clean_df ! k) = map (\<lambda>i. snd (df ! k) ! i) idx"
      by (simp add: clean_df_def filter_frame_def sel)
  qed
  have h: "len_df clean_df = length idx"
  proof -
    from ne obtain c0 rest where df: "df = c0 # rest" by (cases df) auto
    with wf have "length (snd c0) = length flags" by simp
    then show ?thesis by (simp add: clean_df_def df filter_frame_def len_df_def sel)
  qed
  have u: "records_uploaded (upload_inventory cfg df) = length idx"
    by (simp add: upload_inventory_def cp h)
  have fr: "flagged_rest idx df = filter (\<lambda>i. \<not> keep ! i) [0..<length keep]"
    unfolding flagged_rest_def n lk [symmetric]
    by (rule filter_cong) (auto simp: idx_def set_rows_where)
  have li: "length idx = length (filter (\<lambda>i. keep ! i) [0..<length keep])"
    by (simp add: idx_def rows_where_def)
  have i: "length idx + length (flagged_rest idx df) = len_df df"
    unfolding li fr n lk [symmetric]
    using sum_length_filter_compl [of "\<lambda>i. keep ! i" "[0..<length keep]"] by simp
  from cp a b c d e f g h u i show ?thesis by blast
qed

theorem skip_flagged_partition_witness:
  "get_default_true (skip_records_with_issues default_config)
   \<and> get_columns [(''VIN'', [CStr ''a'', CStr ''b'', CStr ''c'']),
                   (''has_issues'', [CBool False, CBool True, CBool False])] ''has_issues''
       = [[CBool False, CBool True, CBool False]]
   \<and> clean_partition default_config
        [(''VIN'', [CStr ''a'', CStr ''b'', CStr ''c'']),
         (''has_issues'', [CBool False, CBool True, CBool False])]
       = Inr ([0, 2], [(''VIN'', [CStr ''a'', CStr ''c'']),
                       (''has_issues'', [CBool False, CBool False])])
   \<and> flagged_rest [0, 2]
        [(''VIN'', [CStr ''a'', CStr ''b'', CStr ''c'']),
         (''has_issues'', [CBool False, CBool True, CBool False])] = [1]
   \<and> records_uploaded (upload_inventory default_config
        [(''VIN'', [CStr ''a'', CStr ''b'', CStr ''c'']),
         (''has_issues'', [CBool False, CBool True, CBool False])]) = 2"
proof -
  have s: "get_default_true (skip_records_with_issues default_config)"
    by (simp add: default_config_def get_default_true_def)
  have c: "get_columns [(''VIN'', [CStr ''a'', CStr ''b'', CStr ''c'']),
                   (''has_issues'', [CBool False, CBool True, CBool False])] ''has_issues''
       = [[CBool False, CBool True, CBool False]]"
    by (simp add: get_columns_def)
  have b: "list_all is_bool [CBool False, CBool True, CBool False]"
    by (simp add: is_bool_def)
  have w: "list_all (\<lambda>c. length (snd c) = length [CBool False, CBool True, CBool False])
             [(''VIN'', [CStr ''a'', CStr ''b'', CStr ''c'']),
              (''has_issues'', [CBool False, CBool True, CBool False])]"
    by simp
  have p: "clean_partition default_config
        [(''VIN'', [CStr ''a'', CStr ''b'', CStr ''c'']),
         (''has_issues'', [CBool False, CBool True, CBool False])]
       = Inr ([0, 2], [(''VIN'', [CStr ''a'', CStr ''c'']),
                       (''has_issues'', [CBool False, CBool False])])"
    by code_simp
  have r: "flagged_rest [0, 2]
        [(''VIN'', [CStr ''a'', CStr ''b'', CStr ''c'']),
         (''has_issues'', [CBool False, CBool True, CBool False])] = [1]"
    by code_simp
  from skip_flagged_partition [OF s c b w] s c p r show ?thesis by simp
qed

section \<open>Uploading a dataset that passed validation\<close>

lemma columns_shape: "columns df = map fst (shape df)"
  by (simp add: columns_def shape_def comp_def)

lemma len_df_shape: "len_df df = (case shape df of [] \<Rightarrow> 0 | s # _ \<Rightarrow> snd s)"
  by (cases df) (simp_all add: len_df_def shape_def)

lemma shape_update_column:
  "(\<forall>c \<in> set df. fst c = name \<longrightarrow> length (f (snd c)) = length (snd c)) \<Longrightarrow>
     shape (update_column name f df) = shape df"
  by (induction df) (auto simp: shape_def update_column_def)

lemma get_columns_single:
  "get_columns df name = [v] \<Longrightarrow> \<forall>c \<in> set df. fst c = name \<longrightarrow> snd c = v"
proof (induction df)
  case Nil
  then show ?case by simp
next
  case (Cons a df)
  show ?case
  proof (cases "fst a = name")
    case True
    with Cons.prems have a: "snd a = v" and r: "filter (\<lambda>c. fst c = name) df = []"
      by (auto simp: get_columns_def)
    from r have "\<forall>c \<in> set df. fst c \<noteq> name" by (simp add: filter_empty_conv)
    with a True show ?thesis by auto
  next
    case False
    with Cons.prems have "get_columns df name = [v]" by (simp add: get_columns_def)
    with Cons.IH False show ?thesis by auto
  qed
qed

lemma series_single: "series e df name = Inr v \<Longrightarrow> get_columns df name = [v]"
  by (auto simp: series_def split: list.splits)

lemma series_column:
  "series e df name = Inr v \<Longrightarrow> \<forall>c \<in> set df. fst c = name \<longrightarrow> snd c = v"
  using get_columns_single series_single by blast

lemma shape_replace_column:
  "series e df name = Inr v \<Longrightarrow> length w = length v \<Longrightarrow>
     shape (update_column name (\<lambda>_. w) df) = shape df"
  using series_column [of e df name v] by (intro shape_update_column) auto

lemma length_astype_Int64: "astype_Int64 v = Inr w \<Longrightarrow> length w = length v"
  by (auto simp: astype_Int64_def split: if_splits)

lemma convert_loop_shape: "convert_loop L tys df = Inr df' \<Longrightarrow> shape df' = shape df"
proof (induction tys arbitrary: df)
  case Nil
  then show ?case by simp
next
  case (Cons a tys)
  obtain col ty where a: "a = (col, ty)" by (cases a)
  from Cons.prems show ?case
    unfolding a
    by (auto simp: shape_replace_column length_coerce_numeric length_astype_Int64
             split: if_splits sum.splits dest!: Cons.IH)
qed

lemma fill_median_shape: "shape (fill_median L cols df) = shape df"
proof (induction cols arbitrary: df)
  case Nil
  show ?case by simp
next
  case (Cons col cols)
  have u: "\<And>x. shape (update_column col (fillna x) df) = shape df"
    by (intro shape_update_column) (simp add: fillna_def)
  show ?case
    by (auto simp: Cons.IH u Let_def split: list.splits)
qed

lemma fix_missing_values_shape: "shape (fix_missing_values L df) = shape df"
proof -
  have "shape (update_column ''Drivetrain Type'' (fillna (CStr ''Unknown'')) df) = shape df"
    by (intro shape_update_column) (simp add: fillna_def)
  then show ?thesis
    unfolding fix_missing_values_def Let_def fill_median_shape by simp
qed

lemma numeric_loop_shape: "numeric_loop L cols df = Inr df' \<Longrightarrow> shape df' = shape df"
proof (induction cols arbitrary: df)
  case Nil
  then show ?case by simp
next
  case (Cons col cols)
  from Cons.prems show ?case
    by (auto simp: shape_replace_column length_coerce_numeric
             split: if_splits sum.splits dest!: Cons.IH)
qed

lemma text_loop_shape: "text_loop L cols df = Inr df' \<Longrightarrow> shape df' = shape df"
proof (induction cols arbitrary: df)
  case Nil
  then show ?case by simp
next
  case (Cons col cols)
  from Cons.prems show ?case
    by (auto simp: shape_replace_column split: if_splits sum.splits dest!: Cons.IH)
qed

lemma shape_clean: "shape (clean_column_names df) = map (\<lambda>s. (replace_newline (fst s), snd s)) (shape df)"
  by (simp add: shape_def clean_column_names_def comp_def)

lemma format_for_upload_shape:
  assumes "format_for_upload L df = Inr df'"
  shows "shape df' = map (\<lambda>s. (replace_newline (fst s), snd s)) (shape df)"
proof -
  from assms obtain d1 where
    n: "numeric_loop L numeric_columns (map (\<lambda>c. (replace_newline (fst c), snd c)) df) = Inr d1" and
    t: "text_loop L text_columns
          (if ''VIN'' \<in> set (columns d1)
           then update_column ''VIN'' (map (\<lambda>c. CStr (py_str L c))) d1 else d1) = Inr df'"
    by (auto simp: format_for_upload_def Let_def split: sum.splits)
  have v: "shape (update_column ''VIN'' (map (\<lambda>c. CStr (py_str L c))) d1) = shape d1"
    by (intro shape_update_column) simp
  from text_loop_shape [OF t] v have "shape df' = shape d1" by (simp split: if_splits)
  also from numeric_loop_shape [OF n]
  have "shape d1 = shape (clean_column_names df)" by (simp add: clean_column_names_def)
  finally show ?thesis by (simp add: shape_clean)
qed

lemma replace_newline_no_space:
  "CHR '' '' \<notin> set (replace_newline n) \<Longrightarrow> replace_newline n = n"
  by (induction n) (auto simp: replace_newline_def split: if_splits)

lemma has_issues_after_cleaning:
  "''has_issues'' \<in> set (map replace_newline names) \<longleftrightarrow> ''has_issues'' \<in> set names"
proof
  assume "''has_issues'' \<in> set (map replace_newline names)"
  then obtain n where n: "n \<in> set names" and e: "replace_newline n = ''has_issues''" by auto
  have "CHR '' '' \<notin> set (replace_newline n)" unfolding e by simp
  from replace_newline_no_space [OF this] e n show "''has_issues'' \<in> set names" by simp
next
  assume h: "''has_issues'' \<in> set names"
  have "replace_newline ''has_issues'' = ''has_issues''"
    by (simp add: replace_newline_def nl_def)
  with h show "''has_issues'' \<in> set (map replace_newline names)" by force
qed

lemma prepare_passed:
  assumes "prepare_for_upload L (Parsed df) = Inr (Some df', res)" and "validation_passed res"
  shows "\<exists>df2. convert_data_types L (clean_column_names df) = Inr df2
              \<and> format_for_upload L (fix_missing_values L df2) = Inr df'
              \<and> records_processed res = len_df df"
proof -
  from assms(1) have "\<exists>dfo. process_inventory L (Parsed df) = Inr (dfo, res) \<and> success res"
    by (auto simp: prepare_for_upload_def
             split: sum.splits prod.splits if_splits option.splits)
  then obtain dfo where
    pi: "process_inventory L (Parsed df) = Inr (dfo, res)" and s: "success res"
    by blast
  from process_inventory_success [OF pi s] obtain df2 passed vi where
    c: "convert_data_types L (clean_column_names df) = Inr df2" and
    d: "dfo = Some (fix_missing_values L df2)" and
    r: "res = \<lparr>success = True, validation_passed = passed, validation_issues = Some vi,
                error_message = None, records_processed = len_df df,
                records_with_issues = count_records_with_issues vi\<rparr>"
    by auto
  from assms(2) r have p: "passed" by simp
  from assms(1) have "format_for_upload L (fix_missing_values L df2) = Inr df'"
    by (auto simp: prepare_for_upload_def pi d r p split: sum.splits)
  with c r show ?thesis by simp
qed

text \<open>
  C10 as stated fails: a dataset that passes validation may bring a column of its own that
  is called \<open>has_issues\<close>. For the dataset with that single column and one row holding
  \<open>True\<close> the validation passes and one record is processed, yet under the default
  configuration the upload filters on the column and reports \<open>records_uploaded = 0\<close>.
\<close>

theorem has_issues_column_counterexample:
  "handle_upload_process decimal_lib (Parsed [(''has_issues'', [CBool True])]) None
   = Inr (\<lparr>success = True, validation_passed = True,
            validation_issues = Some
              \<lparr>missing_values = [], data_type_issues = [], price_below_cost = [],
               column_name_issues = [], special_character_issues = []\<rparr>,
            error_message = None, records_processed = 1, records_with_issues = 0\<rparr>,
          Some \<lparr>u_success = True, records_uploaded = 0, records_failed = 0,
                u_error_message = None\<rparr>)"
  by code_simp

text \<open>
  The preparation of a dataset that passes validation can still abort: the conversion
  of C2 raises on a \<open>Year\<close> that matches the integer pattern but does not fit 64 bits.
\<close>

lemma passing_dataset_can_abort:
  "validate_data decimal_lib [(''Year'', [CStr ''9223372036854775808''])]
     = Inr (True, \<lparr>missing_values = [], data_type_issues = [], price_below_cost = [],
                    column_name_issues = [], special_character_issues = []\<rparr>)
   \<and> prepare_for_upload decimal_lib (Parsed [(''Year'', [CStr ''9223372036854775808''])])
     = Inl TypeError"
  by code_simp

text \<open>
  C10 (amended): when the validation of a dataset passes and the preparation returns a
  prepared frame (it does not abort), the preparation has added no column (the columns of
  the prepared frame are those of the dataset, with newlines in the names replaced, so
  there is no new \<open>has_issues\<close> or \<open>issue_type\<close> column) and has kept the number of
  rows; and if the dataset has no column called \<open>has_issues\<close>, or the configuration
  does not skip flagged records, the upload succeeds and reports \<open>records_uploaded\<close>
  equal to the number of processed records.
\<close>

theorem passing_dataset_uploads_everything:
  assumes prep: "prepare_for_upload L (Parsed df) = Inr (Some df', res)"
      and passed: "validation_passed res"
      and guard: "''has_issues'' \<notin> set (columns df)
                  \<or> \<not> get_default_true (skip_records_with_issues cfg)"
  shows "columns df' = map replace_newline (columns df)
         \<and> len_df df' = len_df df
         \<and> records_processed res = len_df df
         \<and> upload_inventory cfg df'
             = \<lparr>u_success = True, records_uploaded = records_processed res,
                records_failed = 0, u_error_message = None\<rparr>"
proof -
  from prepare_passed [OF prep passed] obtain df2 where
    c: "convert_data_types L (clean_column_names df) = Inr df2" and
    f: "format_for_upload L (fix_missing_values L df2) = Inr df'" and
    n: "records_processed res = len_df df"
    by blast
  from c have s2: "shape df2 = shape (clean_column_names df)"
    by (simp add: convert_data_types_def convert_loop_shape)
  have sh: "shape df' = map (\<lambda>s. (replace_newline (fst s), snd s)) (shape df)"
    by (simp add: format_for_upload_shape [OF f] fix_missing_values_shape s2 shape_clean
          comp_def replace_newline_idem)
  have cols: "columns df' = map replace_newline (columns df)"
    by (simp add: columns_shape sh comp_def)
  have len: "len_df df' = len_df df"
    unfolding len_df_shape [of df'] sh by (cases df) (simp_all add: shape_def len_df_def)
  from guard have "''has_issues'' \<notin> set (columns df')
                   \<or> \<not> get_default_true (skip_records_with_issues cfg)"
    unfolding cols has_issues_after_cleaning .
  then have "clean_partition cfg df' = Inr ([0..<len_df df'], df')"
    by (auto simp: clean_partition_def)
  then have "upload_inventory cfg df'
             = \<lparr>u_success = True, records_uploaded = records_processed res,
                records_failed = 0, u_error_message = None\<rparr>"
    by (simp add: upload_inventory_def len n)
  with cols len n show ?thesis by simp
qed

theorem passing_dataset_uploads_everything_witness:
  "prepare_for_upload decimal_lib
     (Parsed [(''VIN'', [CStr ''1G1'', CStr ''1G2'']),
              (''Price'', [CInt 9, CStr ''8.5'']),
              (''J.D. Power'' @ [nl] @ ''Trade In'', [CInt 5, CNull])])
   = Inr (Some [(''VIN'', [CStr ''1G1'', CStr ''1G2'']),
                (''Price'', [CNum 9, CNum (17 / 2)]),
                (''J.D. Power Trade In'', [CNum 5, CNum 5])],
          \<lparr>success = True, validation_passed = True,
           validation_issues = Some
             \<lparr>missing_values = [], data_type_issues = [], price_below_cost = [],
              column_name_issues = [], special_character_issues = []\<rparr>,
           error_message = None, records_processed = 2, records_with_issues = 0\<rparr>)
   \<and> upload_inventory default_config
        [(''VIN'', [CStr ''1G1'', CStr ''1G2'']),
         (''Price'', [CNum 9, CNum (17 / 2)]),
         (''J.D. Power Trade In'', [CNum 5, CNum 5])]
     = \<lparr>u_success = True, records_uploaded = 2, records_failed = 0, u_error_message = None\<rparr>"
proof -
  have h: "prepare_for_upload decimal_lib
     (Parsed [(''VIN'', [CStr ''1G1'', CStr ''1G2'']),
              (''Price'', [CInt 9, CStr ''8.5'']),
              (''J.D. Power'' @ [nl] @ ''Trade In'', [CInt 5, CNull])])
   = Inr (Some [(''VIN'', [CStr ''1G1'', CStr ''1G2'']),
                (''Price'', [CNum 9, CNum (17 / 2)]),
                (''J.D. Power Trade In'', [CNum 5, CNum 5])],
          \<lparr>success = True, validation_passed = True,
           validation_issues = Some
             \<lparr>missing_values = [], data_type_issues = [], price_below_cost = [],
              column_name_issues = [], special_character_issues = []\<rparr>,
           error_message = None, records_processed = 2, records_with_issues = 0\<rparr>)"
    by code_simp
  have g: "''has_issues'' \<notin> set (columns [(''VIN'', [CStr ''1G1'', CStr ''1G2'']),
              (''Price'', [CInt 9, CStr ''8.5'']),
              (''J.D. Power'' @ [nl] @ ''Trade In'', [CInt 5, CNull])])
           \<or> \<not> get_default_true (skip_records_with_issues default_config)"
    by (simp add: columns_def nl_def)
  from passing_dataset_uploads_everything [OF h _ g] h show ?thesis by simp
qed

end
